theory Spec2Isabelle
  imports Complex_Main "HOL-Library.Word"
begin

section \<open>The PID controller of ControlPID.cpp\<close>

text \<open>
  The class \<open>controlPID\<close> (ControlPID.h) is a record; every member function is a
  function from the object before the call to the returned value and the object after it.
  \<open>micros()\<close>, the clock of the Arduino core, is an argument of \<open>Controlar\<close>.

  Numbers. \<open>unsigned long\<close> is a 32-bit word, so \<open>TiempoActual - TiempoAnterior\<close> wraps
  as it does on the board. A \<open>float\<close> is an exact real number: rounding, overflow and
  non-finite arguments are not modelled. The one place where the code itself makes a
  non-finite value out of finite ones is the division of the derivative term by an elapsed
  time of zero; the type \<open>flotante\<close> keeps that case (IEEE 754: a positive numerator gives
  plus infinity, a negative one minus infinity, zero gives NaN), and the members
  \<open>Derivativo\<close> and \<open>Salida\<close>, which can hold such a value, have that type.
\<close>

type_synonym tiempo = "32 word"

datatype flotante = Fin real | MasInf | MenosInf | NaN

text \<open>\<open>x / y\<close> with finite operands.\<close>

definition dividir :: "real \<Rightarrow> real \<Rightarrow> flotante" where
  "dividir x y =
     (if y \<noteq> 0 then Fin (x / y)
      else if x > 0 then MasInf
      else if x < 0 then MenosInf
      else NaN)"

text \<open>\<open>x + d\<close> with \<open>x\<close> finite.\<close>

fun sumar :: "real \<Rightarrow> flotante \<Rightarrow> flotante" where
  "sumar x (Fin y) = Fin (x + y)"
| "sumar x MasInf = MasInf"
| "sumar x MenosInf = MenosInf"
| "sumar x NaN = NaN"

text \<open>\<open>a > b\<close> and \<open>a < b\<close> with \<open>b\<close> finite; every comparison with NaN is false.\<close>

fun mayor :: "flotante \<Rightarrow> real \<Rightarrow> bool" where
  "mayor (Fin x) b = (x > b)"
| "mayor MasInf b = True"
| "mayor MenosInf b = False"
| "mayor NaN b = False"

fun menor :: "flotante \<Rightarrow> real \<Rightarrow> bool" where
  "menor (Fin x) b = (x < b)"
| "menor MasInf b = False"
| "menor MenosInf b = True"
| "menor NaN b = False"

text \<open>
  \<open>min\<close> and \<open>max\<close> are the macros of Arduino.h (not a file of this repository):
  \<open>min(a,b) ((a)<(b)?(a):(b))\<close> and \<open>max(a,b) ((a)>(b)?(a):(b))\<close>.
  \<open>minimo\<close>, \<open>maximo\<close> are their instances on two finite values (the integral),
  \<open>minimo_f\<close>, \<open>maximo_f\<close> those on \<open>Salida\<close> and a bound.
\<close>

definition minimo :: "real \<Rightarrow> real \<Rightarrow> real" where
  "minimo a b = (if a < b then a else b)"

definition maximo :: "real \<Rightarrow> real \<Rightarrow> real" where
  "maximo a b = (if a > b then a else b)"

definition minimo_f :: "flotante \<Rightarrow> real \<Rightarrow> flotante" where
  "minimo_f a b = (if menor a b then a else Fin b)"

definition maximo_f :: "flotante \<Rightarrow> real \<Rightarrow> flotante" where
  "maximo_f a b = (if mayor a b then a else Fin b)"

definition MILLON :: real where
  "MILLON = 1000000"

subsection \<open>The object\<close>

record controlPID =
  Salida :: flotante
  Proporcional :: real
  Integral :: real
  Derivativo :: flotante
  Kp :: real
  Ti :: real
  Td :: real
  TiempoAnterior :: tiempo
  ErrorAnterior :: real
  LimitaSalida :: bool
  LimitaIntegral :: bool
  CondicionaIntegral :: bool
  SalidaMax :: real
  SalidaMin :: real

text \<open>
  The constructor assigns neither \<open>SalidaMax\<close>, \<open>SalidaMin\<close>, \<open>Salida\<close>,
  \<open>Proporcional\<close> nor \<open>Derivativo\<close>: they keep what the storage of the object held.
  So the constructor takes that storage as its last argument. \<open>memoria_cero\<close> is the
  zero-initialised storage of an object with static storage duration.
\<close>

definition memoria_cero :: controlPID where
  "memoria_cero =
     \<lparr>Salida = Fin 0, Proporcional = 0, Integral = 0, Derivativo = Fin 0,
      Kp = 0, Ti = 0, Td = 0, TiempoAnterior = 0, ErrorAnterior = 0,
      LimitaSalida = False, LimitaIntegral = False, CondicionaIntegral = False,
      SalidaMax = 0, SalidaMin = 0\<rparr>"

definition ConfigurarPID :: "real \<Rightarrow> real \<Rightarrow> real \<Rightarrow> controlPID \<Rightarrow> controlPID" where
  "ConfigurarPID KP TI TD s =
     s\<lparr>Kp := KP, Ti := TI, Td := TD,
       TiempoAnterior := 0, ErrorAnterior := 0, Integral := 0\<rparr>"

definition controlPID_ctor :: "real \<Rightarrow> real \<Rightarrow> real \<Rightarrow> controlPID \<Rightarrow> controlPID" where
  "controlPID_ctor KP TI TD s =
     (ConfigurarPID KP TI TD s)
       \<lparr>LimitaSalida := False, LimitaIntegral := False, CondicionaIntegral := False\<rparr>"

text \<open>\<open>LimitarSalida()\<close>, \<open>LimitarIntegral()\<close> and \<open>CondicionarIntegral()\<close> read a flag.\<close>

definition LimitarSalida_get :: "controlPID \<Rightarrow> bool" where
  "LimitarSalida_get s = LimitaSalida s"

definition LimitarIntegral_get :: "controlPID \<Rightarrow> bool" where
  "LimitarIntegral_get s = LimitaIntegral s"

definition CondicionarIntegral_get :: "controlPID \<Rightarrow> bool" where
  "CondicionarIntegral_get s = CondicionaIntegral s"

text \<open>\<open>LimitarSalida(boolean RESPUESTA)\<close>.\<close>

definition LimitarSalida :: "bool \<Rightarrow> controlPID \<Rightarrow> bool \<times> controlPID" where
  "LimitarSalida RESPUESTA s =
     (let s1 = s\<lparr>LimitaSalida := RESPUESTA\<rparr>;
          s2 = (if SalidaMax s1 = 0 \<and> SalidaMin s1 = 0
                then s1\<lparr>LimitaSalida := False\<rparr> else s1)
      in (LimitaSalida s2, s2))"

text \<open>\<open>LimitarSalida(boolean RESPUESTA, float SMIN, float SMAX)\<close>.\<close>

definition LimitarSalida3 :: "bool \<Rightarrow> real \<Rightarrow> real \<Rightarrow> controlPID \<Rightarrow> bool \<times> controlPID" where
  "LimitarSalida3 RESPUESTA SMIN SMAX s =
     (let s1 = s\<lparr>SalidaMax := SMAX, SalidaMin := SMIN, LimitaSalida := RESPUESTA\<rparr>;
          s2 = (if SalidaMax s1 = SalidaMin s1 then s1\<lparr>LimitaSalida := False\<rparr> else s1);
          s3 = (if SalidaMin s2 > SalidaMax s2 then s2\<lparr>LimitaSalida := False\<rparr> else s2)
      in (LimitaSalida s3, s3))"

text \<open>\<open>LimitarIntegral(boolean RESPUESTA)\<close>.\<close>

definition LimitarIntegral :: "bool \<Rightarrow> controlPID \<Rightarrow> bool \<times> controlPID" where
  "LimitarIntegral RESPUESTA s =
     (let s1 = s\<lparr>LimitaIntegral := RESPUESTA\<rparr>;
          s2 = (if SalidaMax s1 = SalidaMin s1
                then s1\<lparr>LimitaIntegral := False\<rparr> else s1)
      in (LimitaIntegral s2, s2))"

text \<open>\<open>CondicionarIntegral(boolean RESPUESTA)\<close>.\<close>

definition CondicionarIntegral :: "bool \<Rightarrow> controlPID \<Rightarrow> bool \<times> controlPID" where
  "CondicionarIntegral RESPUESTA s =
     (let s1 = s\<lparr>CondicionaIntegral := RESPUESTA\<rparr>;
          s2 = (if \<not> LimitaSalida s1 then s1\<lparr>CondicionaIntegral := False\<rparr> else s1)
      in (CondicionaIntegral s2, s2))"

text \<open>
  The elapsed time \<open>TiempoActual - TiempoAnterior\<close>: an \<open>unsigned long\<close> difference,
  in microseconds, converted to \<open>float\<close> by the arithmetic around it.
\<close>

definition transcurrido :: "tiempo \<Rightarrow> tiempo \<Rightarrow> real" where
  "transcurrido TiempoActual anterior = real (unat (TiempoActual - anterior))"

text \<open>
  \<open>Controlar(float ERROR)\<close>. The let-bound names are the values of the members at the
  points of the source: \<open>Salida0\<close> is \<open>Salida\<close> after its first assignment, \<open>I1\<close> is
  \<open>Integral\<close> after the conditional \<open>+=\<close>, \<open>I2\<close> after the clamp, \<open>Salida1\<close> is the
  second assignment of \<open>Salida\<close> and \<open>Salida2\<close> the returned one. The divisor
  \<open>2*Ti*MILLON\<close> of the integral is not zero where it is evaluated.
\<close>

definition Controlar :: "tiempo \<Rightarrow> real \<Rightarrow> controlPID \<Rightarrow> flotante \<times> controlPID" where
  "Controlar TiempoActual ERROR s =
     (let P = Kp s * ERROR;
          D = (if TiempoAnterior s > 0 \<and> Td s \<noteq> 0
               then dividir (Kp s * Td s * (ERROR - ErrorAnterior s) * MILLON)
                            (transcurrido TiempoActual (TiempoAnterior s))
               else Fin 0);
          Salida0 = sumar (P + Integral s) D;
          SalidaEstaSaturada =
            (LimitaSalida s \<and> (mayor Salida0 (SalidaMax s) \<or> menor Salida0 (SalidaMin s)));
          I2 = (if TiempoAnterior s > 0 \<and> Ti s \<noteq> 0
                then (let I1 = (if \<not> CondicionaIntegral s \<or> \<not> SalidaEstaSaturada
                                then Integral s
                                     + Kp s * (ERROR + ErrorAnterior s)
                                       * transcurrido TiempoActual (TiempoAnterior s)
                                       / (2 * Ti s * MILLON)
                                else Integral s)
                      in if LimitaIntegral s
                         then maximo (minimo I1 (SalidaMax s)) (SalidaMin s)
                         else I1)
                else Integral s);
          Salida1 = sumar (P + I2) D;
          Salida2 = (if LimitaSalida s
                     then maximo_f (minimo_f Salida1 (SalidaMax s)) (SalidaMin s)
                     else Salida1)
      in (Salida2,
          s\<lparr>Proporcional := P, Derivativo := D, Integral := I2, Salida := Salida2,
            TiempoAnterior := TiempoActual, ErrorAnterior := ERROR\<rparr>))"

definition ObtenerIntegral :: "controlPID \<Rightarrow> real" where
  "ObtenerIntegral s = Integral s"

definition ObtenerProporcional :: "controlPID \<Rightarrow> real" where
  "ObtenerProporcional s = Proporcional s"

definition ObtenerDerivativo :: "controlPID \<Rightarrow> flotante" where
  "ObtenerDerivativo s = Derivativo s"

definition ObtenerSalida :: "controlPID \<Rightarrow> flotante" where
  "ObtenerSalida s = Salida s"

definition Apagar :: "controlPID \<Rightarrow> controlPID" where
  "Apagar s =
     s\<lparr>TiempoAnterior := 0, ErrorAnterior := 0, Integral := 0,
       Proporcional := 0, Derivativo := Fin 0\<rparr>"

subsection \<open>Sequences of calls\<close>

text \<open>
  A call of a member function that changes the object, with its arguments; the clock
  value that \<open>Controlar\<close> reads comes with the call.
\<close>

datatype operacion =
    OpConfigurarPID real real real
  | OpLimitarSalida bool
  | OpLimitarSalida3 bool real real
  | OpLimitarIntegral bool
  | OpCondicionarIntegral bool
  | OpControlar tiempo real
  | OpApagar

fun ejecutar :: "operacion \<Rightarrow> controlPID \<Rightarrow> controlPID" where
  "ejecutar (OpConfigurarPID KP TI TD) s = ConfigurarPID KP TI TD s"
| "ejecutar (OpLimitarSalida r) s = snd (LimitarSalida r s)"
| "ejecutar (OpLimitarSalida3 r smin smax) s = snd (LimitarSalida3 r smin smax s)"
| "ejecutar (OpLimitarIntegral r) s = snd (LimitarIntegral r s)"
| "ejecutar (OpCondicionarIntegral r) s = snd (CondicionarIntegral r s)"
| "ejecutar (OpControlar t e) s = snd (Controlar t e s)"
| "ejecutar OpApagar s = Apagar s"

fun ejecutar_todas :: "operacion list \<Rightarrow> controlPID \<Rightarrow> controlPID" where
  "ejecutar_todas [] s = s"
| "ejecutar_todas (op # ops) s = ejecutar_todas ops (ejecutar op s)"

text \<open>The states an object can be in: constructed, then any calls.\<close>

inductive alcanzable :: "controlPID \<Rightarrow> bool" where
  construido: "alcanzable (controlPID_ctor KP TI TD memoria)"
| paso: "alcanzable s \<Longrightarrow> alcanzable (ejecutar op s)"

text \<open>A value lies in the closed interval of two finite bounds.\<close>

fun dentro :: "flotante \<Rightarrow> real \<Rightarrow> real \<Rightarrow> bool" where
  "dentro (Fin x) lo hi = (lo \<le> x \<and> x \<le> hi)"
| "dentro MasInf lo hi = False"
| "dentro MenosInf lo hi = False"
| "dentro NaN lo hi = False"

text \<open>A sequence of \<open>Controlar\<close> calls, each with the clock value it reads and its error:
  the returned values in order, and the object after the last call.\<close>

fun Controlar_seq :: "(tiempo \<times> real) list \<Rightarrow> controlPID \<Rightarrow> flotante list \<times> controlPID" where
  "Controlar_seq [] s = ([], s)"
| "Controlar_seq ((t, e) # xs) s =
     (let (y, s1) = Controlar t e s;
          (ys, s2) = Controlar_seq xs s1
      in (y # ys, s2))"

fun es_Controlar :: "operacion \<Rightarrow> bool" where
  "es_Controlar (OpControlar t e) = True"
| "es_Controlar op = False"

subsection \<open>Objects used as examples\<close>

text \<open>Gains 2, 0, 0 and the output limited to \<open>[-1, 1]\<close>.\<close>

definition ejemplo_limitado :: controlPID where
  "ejemplo_limitado = snd (LimitarSalida3 True (-1) 1 (controlPID_ctor 2 0 0 memoria_cero))"

text \<open>Gains 1, 1, 0 after a first \<open>Controlar\<close> at one second with error 1.\<close>

definition ejemplo_integrando :: controlPID where
  "ejemplo_integrando = snd (Controlar 1000000 1 (controlPID_ctor 1 1 0 memoria_cero))"



text \<open>The output limited to \<open>[-1, 1]\<close>, the conditional integration switched on, then
  the output limit switched off.\<close>

definition ejemplo_condicion_suelta :: controlPID where
  "ejemplo_condicion_suelta =
     ejecutar_todas
       [OpLimitarSalida3 True (-1) 1, OpCondicionarIntegral True, OpLimitarSalida False]
       (controlPID_ctor 1 1 0 memoria_cero)"

text \<open>The object after \<open>LimitarSalida(true, 5, 5)\<close>.\<close>

definition ejemplo_limites_iguales :: controlPID where
  "ejemplo_limites_iguales = snd (LimitarSalida3 True 5 5 (controlPID_ctor 1 0 0 memoria_cero))"

text \<open>The object after \<open>LimitarSalida(true, 5, 1)\<close>.\<close>

definition ejemplo_limites_invertidos :: controlPID where
  "ejemplo_limites_invertidos =
     snd (LimitarSalida3 True 5 1 (controlPID_ctor 1 1 0 memoria_cero))"

text \<open>Gains 1, 1, 1 after a first \<open>Controlar\<close> one second before the clock wraps to 0.\<close>

definition ejemplo_derivando :: controlPID where
  "ejemplo_derivando = snd (Controlar 4293967296 1 (controlPID_ctor 1 1 1 memoria_cero))"




section \<open>Properties\<close>

subsection \<open>Shared facts\<close>

lemmas evaluar =
  controlPID_ctor_def ConfigurarPID_def memoria_cero_def Apagar_def
  LimitarSalida_def LimitarSalida3_def LimitarIntegral_def CondicionarIntegral_def
  Controlar_def Let_def maximo_f_def minimo_f_def minimo_def maximo_def
  dividir_def transcurrido_def MILLON_def

lemma saturar_dentro:
  "lo \<le> hi \<Longrightarrow> dentro (maximo_f (minimo_f x hi) lo) lo hi"
  by (cases x) (auto simp: maximo_f_def minimo_f_def)

lemma Controlar_conserva:
  "LimitaSalida (snd (Controlar t e s)) = LimitaSalida s"
  "LimitaIntegral (snd (Controlar t e s)) = LimitaIntegral s"
  "CondicionaIntegral (snd (Controlar t e s)) = CondicionaIntegral s"
  "SalidaMax (snd (Controlar t e s)) = SalidaMax s"
  "SalidaMin (snd (Controlar t e s)) = SalidaMin s"
  "Kp (snd (Controlar t e s)) = Kp s"
  "Ti (snd (Controlar t e s)) = Ti s"
  "Td (snd (Controlar t e s)) = Td s"
  by (simp_all add: Controlar_def Let_def)

lemma Controlar_Salida:
  "Salida (snd (Controlar t e s)) = fst (Controlar t e s)"
  by (simp add: Controlar_def Let_def)

lemma Controlar_limitada:
  "LimitaSalida s \<Longrightarrow> SalidaMin s \<le> SalidaMax s \<Longrightarrow>
   dentro (fst (Controlar t e s)) (SalidaMin s) (SalidaMax s)"
  by (simp add: Controlar_def Let_def saturar_dentro)

lemma Controlar_seq_conserva:
  "LimitaSalida (snd (Controlar_seq xs s)) = LimitaSalida s \<and>
   LimitaIntegral (snd (Controlar_seq xs s)) = LimitaIntegral s \<and>
   CondicionaIntegral (snd (Controlar_seq xs s)) = CondicionaIntegral s \<and>
   SalidaMax (snd (Controlar_seq xs s)) = SalidaMax s \<and>
   SalidaMin (snd (Controlar_seq xs s)) = SalidaMin s"
proof (induction xs arbitrary: s)
  case Nil
  show ?case by simp
next
  case (Cons x xs)
  obtain t e where x: "x = (t, e)" by (cases x)
  show ?case
    using Cons.IH [of "snd (Controlar t e s)"]
    by (simp add: x split_beta Controlar_conserva)
qed

lemma Controlar_seq_salidas:
  "LimitaSalida s \<Longrightarrow> SalidaMin s \<le> SalidaMax s \<Longrightarrow>
   list_all (\<lambda>y. dentro y (SalidaMin s) (SalidaMax s)) (fst (Controlar_seq xs s))"
proof (induction xs arbitrary: s)
  case Nil
  show ?case by simp
next
  case (Cons x xs)
  obtain t e where x: "x = (t, e)" by (cases x)
  have "list_all (\<lambda>y. dentro y (SalidaMin s) (SalidaMax s))
          (fst (Controlar_seq xs (snd (Controlar t e s))))"
    using Cons.IH [of "snd (Controlar t e s)"] Cons.prems
    by (simp add: Controlar_conserva)
  then show ?case
    using Controlar_limitada [OF Cons.prems, of t e]
    by (simp add: x split_beta)
qed

lemma saturar_invertido:
  "lo > hi \<Longrightarrow> maximo_f (minimo_f x hi) lo = Fin lo"
  by (cases x) (auto simp: maximo_f_def minimo_f_def)

lemma Controlar_invertido:
  "LimitaSalida s \<Longrightarrow> SalidaMin s > SalidaMax s \<Longrightarrow>
   fst (Controlar t e s) = Fin (SalidaMin s)"
  by (simp add: Controlar_def Let_def saturar_invertido)

lemma Controlar_seq_invertido:
  "LimitaSalida s \<Longrightarrow> SalidaMin s > SalidaMax s \<Longrightarrow>
   list_all (\<lambda>y. y = Fin (SalidaMin s)) (fst (Controlar_seq xs s))"
proof (induction xs arbitrary: s)
  case Nil
  show ?case by simp
next
  case (Cons x xs)
  obtain t e where x: "x = (t, e)" by (cases x)
  have "list_all (\<lambda>y. y = Fin (SalidaMin s)) (fst (Controlar_seq xs (snd (Controlar t e s))))"
    using Cons.IH [of "snd (Controlar t e s)"] Cons.prems
    by (simp add: Controlar_conserva)
  then show ?case
    using Controlar_invertido [OF Cons.prems, of t e]
    by (simp add: x split_beta)
qed

lemma Controlar_primera:
  "TiempoAnterior s = 0 \<Longrightarrow>
   Derivativo (snd (Controlar t e s)) = Fin 0 \<and> Integral (snd (Controlar t e s)) = Integral s"
  by (simp add: Controlar_def Let_def)

lemma sin_muestra_conserva:
  "\<not> es_Controlar op \<Longrightarrow> TiempoAnterior s = 0 \<and> Integral s = 0 \<Longrightarrow>
   TiempoAnterior (ejecutar op s) = 0 \<and> Integral (ejecutar op s) = 0"
  by (cases op)
     (simp_all add: ConfigurarPID_def LimitarSalida_def LimitarSalida3_def
        LimitarIntegral_def CondicionarIntegral_def Apagar_def Let_def)

lemma sin_muestra_todas:
  "list_all (\<lambda>op. \<not> es_Controlar op) ops \<Longrightarrow> TiempoAnterior s = 0 \<and> Integral s = 0 \<Longrightarrow>
   TiempoAnterior (ejecutar_todas ops s) = 0 \<and> Integral (ejecutar_todas ops s) = 0"
proof (induction ops arbitrary: s)
  case Nil
  then show ?case by simp
next
  case (Cons op ops)
  from Cons.prems have op: "\<not> es_Controlar op"
    and rest: "list_all (\<lambda>op. \<not> es_Controlar op) ops"
    by simp_all
  have "TiempoAnterior (ejecutar op s) = 0 \<and> Integral (ejecutar op s) = 0"
    by (rule sin_muestra_conserva [OF op Cons.prems(2)])
  with rest show ?case
    using Cons.IH [of "ejecutar op s"] by simp
qed

lemma alcanzable_todas: "alcanzable s \<Longrightarrow> alcanzable (ejecutar_todas ops s)"
  by (induction ops arbitrary: s) (auto intro: alcanzable.paso)


subsection \<open>The output limit\<close>

text \<open>
  C1. With the output limit on and \<open>SalidaMin \<le> SalidaMax\<close>, whatever the sequence of
  \<open>Controlar\<close> calls (clock values and errors), every returned value is a finite number
  in \<open>[SalidaMin, SalidaMax]\<close>; so is the value returned by one more call, and the member
  \<open>Salida\<close> after it. The elapsed time may be zero: the infinite or NaN derivative is
  clamped like any other value.
\<close>

theorem salida_siempre_en_limites:
  assumes "LimitaSalida s" and "SalidaMin s \<le> SalidaMax s"
  shows "list_all (\<lambda>y. dentro y (SalidaMin s) (SalidaMax s)) (fst (Controlar_seq xs s)) \<and>
         dentro (fst (Controlar t e (snd (Controlar_seq xs s)))) (SalidaMin s) (SalidaMax s) \<and>
         dentro (Salida (snd (Controlar t e (snd (Controlar_seq xs s)))))
                (SalidaMin s) (SalidaMax s)"
proof -
  let ?s' = "snd (Controlar_seq xs s)"
  have "LimitaSalida ?s'" and "SalidaMin ?s' \<le> SalidaMax ?s'"
    using assms by (simp_all add: Controlar_seq_conserva)
  then have "dentro (fst (Controlar t e ?s')) (SalidaMin ?s') (SalidaMax ?s')"
    by (rule Controlar_limitada)
  then show ?thesis
    using Controlar_seq_salidas [OF assms, of xs]
    by (simp add: Controlar_seq_conserva Controlar_Salida)
qed

theorem salida_siempre_en_limites_witness:
  "LimitaSalida ejemplo_limitado \<and>
   SalidaMin ejemplo_limitado \<le> SalidaMax ejemplo_limitado \<and>
   SalidaMin ejemplo_limitado \<noteq> SalidaMax ejemplo_limitado \<and>
   fst (Controlar_seq [(1000, 3), (2000, -7)] ejemplo_limitado) = [Fin 1, Fin (-1)] \<and>
   dentro (fst (Controlar 3000 3 (snd (Controlar_seq [(1000, 3), (2000, -7)] ejemplo_limitado))))
          (SalidaMin ejemplo_limitado) (SalidaMax ejemplo_limitado)"
  using salida_siempre_en_limites [of ejemplo_limitado "[(1000, 3), (2000, -7)]" 3000 3]
  by (simp add: ejemplo_limitado_def evaluar)

subsection \<open>The integral\<close>







subsection \<open>The flags\<close>

text \<open>
  C4, as the claim states it, fails: neither \<open>LimitarSalida\<close> touches
  \<open>CondicionaIntegral\<close>. After \<open>LimitarSalida(true, -1, 1)\<close>,
  \<open>CondicionarIntegral(true)\<close> and \<open>LimitarSalida(false)\<close> the object has
  \<open>CondicionaIntegral\<close> true and \<open>LimitaSalida\<close> false.
\<close>

theorem condicion_sin_limite_counterexample:
  "alcanzable ejemplo_condicion_suelta \<and>
   CondicionaIntegral ejemplo_condicion_suelta \<and>
   \<not> LimitaSalida ejemplo_condicion_suelta"
proof -
  have "alcanzable ejemplo_condicion_suelta"
    unfolding ejemplo_condicion_suelta_def
    by (rule alcanzable_todas) (rule alcanzable.construido)
  moreover have "CondicionaIntegral ejemplo_condicion_suelta \<and>
                 \<not> LimitaSalida ejemplo_condicion_suelta"
    by (simp add: ejemplo_condicion_suelta_def evaluar)
  ultimately show ?thesis by simp
qed

text \<open>
  C4, amended. \<open>CondicionarIntegral(r)\<close> returns, and stores in \<open>CondicionaIntegral\<close>,
  \<open>r\<close> and \<open>LimitaSalida\<close>: the flag goes on only while the output limit is on. Both
  \<open>LimitarSalida\<close> leave \<open>CondicionaIntegral\<close> as it is. And in an object whose
  \<open>LimitaSalida\<close> is false the flag has no effect: \<open>Controlar\<close> returns the same value
  and leaves the same object (the flag apart) whatever \<open>CondicionaIntegral\<close> is.
\<close>

theorem condicion_requiere_limite:
  "fst (CondicionarIntegral r s) = (r \<and> LimitaSalida s) \<and>
   CondicionaIntegral (snd (CondicionarIntegral r s)) = (r \<and> LimitaSalida s) \<and>
   CondicionaIntegral (snd (LimitarSalida r s)) = CondicionaIntegral s \<and>
   CondicionaIntegral (snd (LimitarSalida3 r smin smax s)) = CondicionaIntegral s \<and>
   (\<not> LimitaSalida s \<longrightarrow>
      Controlar t e (s\<lparr>CondicionaIntegral := c\<rparr>)
        = (fst (Controlar t e s), (snd (Controlar t e s))\<lparr>CondicionaIntegral := c\<rparr>))"
  by (simp add: CondicionarIntegral_def LimitarSalida_def LimitarSalida3_def
                Controlar_def Let_def)

theorem condicion_requiere_limite_witness:
  "\<not> LimitaSalida ejemplo_condicion_suelta \<and>
   CondicionaIntegral ejemplo_condicion_suelta \<and>
   fst (CondicionarIntegral True ejemplo_condicion_suelta) = False \<and>
   Controlar 1000 3 (ejemplo_condicion_suelta\<lparr>CondicionaIntegral := False\<rparr>)
     = (Fin 3, (snd (Controlar 1000 3 ejemplo_condicion_suelta))\<lparr>CondicionaIntegral := False\<rparr>)"
  using condicion_requiere_limite
          [where r = True and s = ejemplo_condicion_suelta and t = 1000 and e = 3 and c = False]
  by (simp add: ejemplo_condicion_suelta_def evaluar)

text \<open>
  C5. \<open>LimitarSalida(boolean)\<close> refuses only when both stored bounds are 0. After
  \<open>LimitarSalida(true, 5, 5)\<close>, which returns false and stores 5 and 5,
  \<open>LimitarSalida(true)\<close> returns true and leaves \<open>LimitaSalida\<close> true, where the claim
  says false.
\<close>

theorem limites_iguales_activados:
  "fst (LimitarSalida3 True 5 5 (controlPID_ctor 1 0 0 memoria_cero)) = False \<and>
   SalidaMin ejemplo_limites_iguales = 5 \<and> SalidaMax ejemplo_limites_iguales = 5 \<and>
   fst (LimitarSalida True ejemplo_limites_iguales) = True \<and>
   LimitaSalida (snd (LimitarSalida True ejemplo_limites_iguales)) = True"
  by (simp add: ejemplo_limites_iguales_def evaluar)

text \<open>
  C6. \<open>LimitarIntegral(boolean)\<close> refuses only when the stored bounds are equal. After
  \<open>LimitarSalida(true, 5, 1)\<close>, which returns false and stores \<open>SalidaMin = 5\<close> above
  \<open>SalidaMax = 1\<close>, \<open>LimitarIntegral(true)\<close> returns true and leaves \<open>LimitaIntegral\<close>
  true, where the claim says false.
\<close>

theorem integral_limites_invertidos:
  "fst (LimitarSalida3 True 5 1 (controlPID_ctor 1 1 0 memoria_cero)) = False \<and>
   SalidaMin ejemplo_limites_invertidos = 5 \<and> SalidaMax ejemplo_limites_invertidos = 1 \<and>
   SalidaMin ejemplo_limites_invertidos > SalidaMax ejemplo_limites_invertidos \<and>
   fst (LimitarIntegral True ejemplo_limites_invertidos) = True \<and>
   LimitaIntegral (snd (LimitarIntegral True ejemplo_limites_invertidos)) = True"
  by (simp add: ejemplo_limites_invertidos_def evaluar)

subsection \<open>Proportional control\<close>




subsection \<open>The first call\<close>

text \<open>
  C8. Take the object left by the constructor, by \<open>ConfigurarPID\<close> or by \<open>Apagar\<close>
  (whatever the gains and whatever the object was before), then any calls other than
  \<open>Controlar\<close>. The integral is 0, and the next \<open>Controlar\<close>, whatever its clock value
  and error, leaves \<open>Derivativo\<close> 0 and the integral 0.
\<close>

theorem primera_llamada:
  assumes "s0 = controlPID_ctor KP TI TD m \<or> s0 = ConfigurarPID KP TI TD m \<or> s0 = Apagar m"
    and "list_all (\<lambda>op. \<not> es_Controlar op) ops"
  shows "Derivativo (snd (Controlar t e (ejecutar_todas ops s0))) = Fin 0 \<and>
         Integral (snd (Controlar t e (ejecutar_todas ops s0))) = 0 \<and>
         Integral (ejecutar_todas ops s0) = 0"
proof -
  from assms(1) have "TiempoAnterior s0 = 0 \<and> Integral s0 = 0"
    by (auto simp: controlPID_ctor_def ConfigurarPID_def Apagar_def)
  then have "TiempoAnterior (ejecutar_todas ops s0) = 0 \<and> Integral (ejecutar_todas ops s0) = 0"
    using assms(2) by (simp add: sin_muestra_todas)
  then show ?thesis
    using Controlar_primera [of "ejecutar_todas ops s0" t e] by simp
qed

theorem primera_llamada_witness:
  "list_all (\<lambda>op. \<not> es_Controlar op) [OpLimitarSalida3 True (-10) 10, OpLimitarIntegral True] \<and>
   Integral (snd (Controlar 2000000 1 ejemplo_integrando)) = 1 \<and>
   Derivativo (snd (Controlar 5000000 7
      (ejecutar_todas [OpLimitarSalida3 True (-10) 10, OpLimitarIntegral True]
         (Apagar (snd (Controlar 2000000 1 ejemplo_integrando)))))) = Fin 0 \<and>
   Integral (snd (Controlar 5000000 7
      (ejecutar_todas [OpLimitarSalida3 True (-10) 10, OpLimitarIntegral True]
         (Apagar (snd (Controlar 2000000 1 ejemplo_integrando)))))) = 0"
  using primera_llamada
    [where ?s0.0 = "Apagar (snd (Controlar 2000000 1 ejemplo_integrando))"
       and m = "snd (Controlar 2000000 1 ejemplo_integrando)"
       and ops = "[OpLimitarSalida3 True (-10) 10, OpLimitarIntegral True]"
       and t = 5000000 and e = 7]
  by (simp add: ejemplo_integrando_def evaluar)

text \<open>
  C9. A \<open>Controlar\<close> that reads the clock at exactly 0 stores \<open>TiempoAnterior = 0\<close>, the
  value that means no previous sample. The \<open>Controlar\<close> after it, whatever clock value
  and error it gets, has \<open>Derivativo\<close> 0 and leaves the integral as the call at 0 left it.
\<close>

theorem reloj_en_cero:
  "TiempoAnterior (snd (Controlar 0 e1 s)) = 0 \<and>
   Derivativo (snd (Controlar t2 e2 (snd (Controlar 0 e1 s)))) = Fin 0 \<and>
   Integral (snd (Controlar t2 e2 (snd (Controlar 0 e1 s)))) = Integral (snd (Controlar 0 e1 s))"
  by (simp add: Controlar_def Let_def)

theorem reloj_en_cero_witness:
  "TiempoAnterior ejemplo_derivando > 0 \<and> Ti ejemplo_derivando \<noteq> 0 \<and> Td ejemplo_derivando \<noteq> 0 \<and>
   Integral (snd (Controlar 0 3 ejemplo_derivando)) = 2 \<and>
   Derivativo (snd (Controlar 0 3 ejemplo_derivando)) = Fin 2 \<and>
   ErrorAnterior (snd (Controlar 0 3 ejemplo_derivando)) = 3 \<and>
   Derivativo (snd (Controlar 1000000 5 (snd (Controlar 0 3 ejemplo_derivando)))) = Fin 0 \<and>
   Integral (snd (Controlar 1000000 5 (snd (Controlar 0 3 ejemplo_derivando)))) = 2"
  using reloj_en_cero [of 3 ejemplo_derivando 1000000 5]
  by (simp add: ejemplo_derivando_def evaluar)

subsection \<open>Bounds stored the wrong way round\<close>

text \<open>
  C10. \<open>LimitarSalida(r, smin, smax)\<close> stores \<open>smin\<close> and \<open>smax\<close> whatever they are. When
  \<open>smin > smax\<close> it returns false and leaves the limit off; \<open>LimitarSalida(true)\<close> after
  it returns true and switches the limit on with those bounds; and from then on every
  \<open>Controlar\<close>, after any sequence of \<open>Controlar\<close> calls, returns exactly \<open>smin\<close>.
\<close>

theorem limites_invertidos:
  "SalidaMin (snd (LimitarSalida3 r smin smax s)) = smin \<and>
   SalidaMax (snd (LimitarSalida3 r smin smax s)) = smax \<and>
   (smin > smax \<longrightarrow>
      fst (LimitarSalida3 r smin smax s) = False \<and>
      \<not> LimitaSalida (snd (LimitarSalida3 r smin smax s)) \<and>
      (let s1 = snd (LimitarSalida3 r smin smax s);
           s2 = snd (LimitarSalida True s1)
       in fst (LimitarSalida True s1) = True \<and>
          LimitaSalida s2 \<and> SalidaMin s2 = smin \<and> SalidaMax s2 = smax \<and>
          list_all (\<lambda>y. y = Fin smin) (fst (Controlar_seq xs s2)) \<and>
          fst (Controlar t e (snd (Controlar_seq xs s2))) = Fin smin))"
proof -
  let ?s1 = "snd (LimitarSalida3 r smin smax s)"
  let ?s2 = "snd (LimitarSalida True ?s1)"
  have almacena: "SalidaMin ?s1 = smin \<and> SalidaMax ?s1 = smax"
    by (simp add: LimitarSalida3_def Let_def)
  have rechaza: "fst (LimitarSalida3 r smin smax s) = False \<and> \<not> LimitaSalida ?s1"
    if "smin > smax"
    using that by (simp add: LimitarSalida3_def Let_def)
  have activa: "fst (LimitarSalida True ?s1) = True \<and> LimitaSalida ?s2 \<and>
                SalidaMin ?s2 = smin \<and> SalidaMax ?s2 = smax"
    if "smin > smax"
    using that by (auto simp: LimitarSalida_def LimitarSalida3_def Let_def)
  have salidas: "list_all (\<lambda>y. y = Fin smin) (fst (Controlar_seq xs ?s2)) \<and>
                 fst (Controlar t e (snd (Controlar_seq xs ?s2))) = Fin smin"
    if "smin > smax"
  proof -
    from activa [OF that] have l: "LimitaSalida ?s2" and inv: "SalidaMin ?s2 > SalidaMax ?s2"
      and m: "SalidaMin ?s2 = smin"
      using that by simp_all
    let ?s3 = "snd (Controlar_seq xs ?s2)"
    have "LimitaSalida ?s3" and "SalidaMin ?s3 > SalidaMax ?s3"
      using l inv by (simp_all add: Controlar_seq_conserva)
    then have "fst (Controlar t e ?s3) = Fin (SalidaMin ?s3)"
      by (rule Controlar_invertido)
    then show ?thesis
      using Controlar_seq_invertido [OF l inv, of xs] m
      by (simp add: Controlar_seq_conserva)
  qed
  show ?thesis
    using almacena rechaza activa salidas by (simp add: Let_def)
qed

theorem limites_invertidos_witness:
  "(5::real) > 1 \<and>
   fst (LimitarSalida3 True 5 1 (controlPID_ctor 1 1 0 memoria_cero)) = False \<and>
   fst (LimitarSalida True (snd (LimitarSalida3 True 5 1 (controlPID_ctor 1 1 0 memoria_cero))))
     = True \<and>
   list_all (\<lambda>y. y = Fin 5)
     (fst (Controlar_seq [(1000000, 2), (2000000, -40)]
          (snd (LimitarSalida True
                  (snd (LimitarSalida3 True 5 1 (controlPID_ctor 1 1 0 memoria_cero)))))))"
  using limites_invertidos
    [where r = True and smin = 5 and smax = 1 and s = "controlPID_ctor 1 1 0 memoria_cero"
       and xs = "[(1000000, 2), (2000000, -40)]" and t = 3000000 and e = 0]
  by (simp add: Let_def)

end
